theory Spec2Isabelle
  imports Complex_Main "HOL-Library.Log_Nat"
begin

section \<open>JavaScript numbers\<close>

text \<open>
  Every number of the scripts (price, quantity, stock, total, percent change) is an
  IEEE 754 double. A finite double is kept as the rational it denotes; the result of an
  arithmetic operation is the exact result rounded to the nearest double, a tie going to
  the even significand, with overflow to an infinity and gradual underflow. The two
  zeros are not told apart: \<open>-0 === 0\<close> holds and both print as \<open>0\<close>. They differ only
  as divisors, and a zero divisor is taken as \<open>+0\<close>; the one division of the scripts
  modelled here, in \<open>calculateRevenue\<close>, has a divisor above 0.
\<close>

datatype number = Finite rat | PlusInfinity | MinusInfinity | NaN

text \<open>Rounding to the nearest integer, a tie going to the even one.\<close>

definition round_even :: "rat \<Rightarrow> int" where
  "round_even q =
     (let n = \<lfloor>q\<rfloor>; r = q - of_int n
      in if r < 1 / 2 then n else if 1 / 2 < r then n + 1 else if even n then n else n + 1)"

text \<open>The binary exponent of a positive rational \<open>a\<close>: the \<open>e\<close> with
  \<open>2^e \<le> a < 2^(e+1)\<close>, found from the bit lengths of numerator and denominator.\<close>

definition exponent :: "rat \<Rightarrow> int" where
  "exponent a =
     (let d = bitlen (fst (quotient_of a)) - bitlen (snd (quotient_of a))
      in if 2 powi d \<le> a then d else d - 1)"

text \<open>The double nearest to a rational: 53 significant bits, exponents from -1022
  (below it the spacing stays \<open>2^-1074\<close>) to 1023 (above it the result is infinite).\<close>

definition to_double :: "rat \<Rightarrow> number" where
  "to_double x =
     (if x = 0 then Finite 0
      else let e = max (exponent \<bar>x\<bar>) (- 1022);
               ulp = 2 powi (e - 52);
               y = of_int (round_even (x / ulp)) * ulp
           in if 1024 \<le> exponent \<bar>y\<bar> then (if 0 < x then PlusInfinity else MinusInfinity)
              else Finite y)"

fun negative :: "number \<Rightarrow> bool" where
  "negative (Finite a) = (a < 0)"
| "negative MinusInfinity = True"
| "negative x = False"

instantiation number :: "{zero, one, plus, uminus, minus, times, inverse, ord}"
begin

definition zero_number :: number where
  "zero_number = Finite 0"

definition one_number :: number where
  "one_number = Finite 1"

fun uminus_number :: "number \<Rightarrow> number" where
  "uminus_number (Finite a) = Finite (- a)"
| "uminus_number PlusInfinity = MinusInfinity"
| "uminus_number MinusInfinity = PlusInfinity"
| "uminus_number NaN = NaN"

fun plus_number :: "number \<Rightarrow> number \<Rightarrow> number" where
  "plus_number (Finite a) (Finite b) = to_double (a + b)"
| "plus_number NaN y = NaN"
| "plus_number x NaN = NaN"
| "plus_number PlusInfinity MinusInfinity = NaN"
| "plus_number MinusInfinity PlusInfinity = NaN"
| "plus_number PlusInfinity y = PlusInfinity"
| "plus_number x PlusInfinity = PlusInfinity"
| "plus_number MinusInfinity y = MinusInfinity"
| "plus_number x MinusInfinity = MinusInfinity"

definition minus_number :: "number \<Rightarrow> number \<Rightarrow> number" where
  "minus_number x y = x + (- y)"

fun times_number :: "number \<Rightarrow> number \<Rightarrow> number" where
  "times_number (Finite a) (Finite b) = to_double (a * b)"
| "times_number NaN y = NaN"
| "times_number x NaN = NaN"
| "times_number x y =
     (if x = Finite 0 \<or> y = Finite 0 then NaN
      else if negative x = negative y then PlusInfinity else MinusInfinity)"

fun divide_number :: "number \<Rightarrow> number \<Rightarrow> number" where
  "divide_number (Finite a) (Finite b) =
     (if b = 0 then (if a = 0 then NaN else if 0 < a then PlusInfinity else MinusInfinity)
      else to_double (a / b))"
| "divide_number NaN y = NaN"
| "divide_number x NaN = NaN"
| "divide_number (Finite a) y = Finite 0"
| "divide_number x (Finite b) = (if negative x = (b < 0) then PlusInfinity else MinusInfinity)"
| "divide_number x y = NaN"

definition inverse_number :: "number \<Rightarrow> number" where
  "inverse_number x = divide (Finite 1) x"

fun less_number :: "number \<Rightarrow> number \<Rightarrow> bool" where
  "less_number (Finite a) (Finite b) = (a < b)"
| "less_number NaN y = False"
| "less_number x NaN = False"
| "less_number x MinusInfinity = False"
| "less_number PlusInfinity y = False"
| "less_number x y = True"

definition less_eq_number :: "number \<Rightarrow> number \<Rightarrow> bool" where
  "less_eq_number x y \<longleftrightarrow> x < y \<or> (x = y \<and> x \<noteq> NaN)"

instance ..

end

text \<open>A number is falsy when it is zero or \<open>NaN\<close>.\<close>

definition falsy :: "number \<Rightarrow> bool" where
  "falsy x \<longleftrightarrow> x = 0 \<or> x = NaN"

text \<open>
  \<open>x.toFixed(d)\<close> is a string. For a finite \<open>x\<close> below \<open>10^21\<close> in size it is the
  decimal numeral with \<open>d\<close> fraction digits nearest to the value of \<open>x\<close>, a tie going
  away from zero; it is kept as the rational it denotes (\<open>Inl\<close>). Otherwise it is the
  string of \<open>x\<close> itself (\<open>Inr\<close>). \<open>parseFloat\<close> reads either back as a number, and
  reads a number as that number.
\<close>

definition round_decimal :: "nat \<Rightarrow> rat \<Rightarrow> rat" where
  "round_decimal d a = sgn a * of_int \<lfloor>\<bar>a\<bar> * 10 ^ d + 1 / 2\<rfloor> / 10 ^ d"

definition toFixed :: "nat \<Rightarrow> number \<Rightarrow> rat + number" where
  "toFixed d x =
     (case x of
        Finite a \<Rightarrow> if 10 ^ 21 \<le> \<bar>a\<bar> then Inr x else Inl (round_decimal d a)
      | _ \<Rightarrow> Inr x)"

definition parseFloat :: "rat + number \<Rightarrow> number" where
  "parseFloat s = (case s of Inl r \<Rightarrow> to_double r | Inr x \<Rightarrow> x)"

section \<open>Data model\<close>

text \<open>
  The storefront script keeps its state in module-level variables (\<open>currentUser\<close>,
  \<open>cart\<close>, \<open>products\<close>, \<open>allProducts\<close>, \<open>selectedImageFile\<close>), in the browser's local
  storage, and in the tables of the hosted backend. All of it is gathered in one record
  that every operation takes and returns.

  Identifiers are strings. A property that may be \<open>undefined\<close> or \<open>null\<close> is an
  \<open>option\<close>. Rendering (the DOM, \<open>updateCartUI\<close>, \<open>closeModal\<close>) has no
  effect on this state and is left out; \<open>showToast\<close> is kept as a log of notifications.
\<close>

record product =
  p_id :: string
  p_name :: string
  p_description :: string
  p_price :: number
  p_category :: string
  p_image_url :: string
  p_sizes :: "string list option"
  p_stock :: number
  p_sku :: string
  p_featured :: bool

text \<open>A cart line \<open>{id, product, quantity, size}\<close>; \<open>id\<close> is absent in a local cart.\<close>

record cart_line =
  l_id :: "string option"
  l_product :: product
  l_quantity :: number
  l_size :: string

text \<open>A row of the backend table \<open>cart_items\<close>.\<close>

record cart_row =
  c_id :: string
  c_user_id :: string
  c_product_id :: string
  c_quantity :: number
  c_size :: string

text \<open>An element of \<open>orderData.items\<close>, and \<open>orderData\<close> itself.\<close>

record order_item =
  oi_product_id :: string
  oi_name :: string
  oi_quantity :: number
  oi_size :: string
  oi_price :: number
  oi_image_url :: string

record order_data =
  o_user_id :: string
  o_items :: "order_item list"
  o_total :: number
  o_status :: string

text \<open>A row of the backend table \<open>orders\<close>: the inserted data and the identifier
  the backend gave it.\<close>

record order_row = order_data +
  o_id :: string

text \<open>The object handed to \<open>update\<close> or \<open>insert\<close> on \<open>products\<close>: any subset of the
  columns.\<close>

record product_data =
  d_id :: "string option"
  d_name :: "string option"
  d_description :: "string option"
  d_price :: "number option"
  d_category :: "string option"
  d_image_url :: "string option"
  d_sizes :: "string list option"
  d_stock :: "number option"
  d_sku :: "string option"
  d_featured :: "bool option"

text \<open>The catalog query that \<open>loadProducts\<close> builds.\<close>

datatype ordering = Price_ascending | Price_descending | Featured_descending | Created_at_descending

record query =
  q_category :: "string option"
  q_name_ilike :: "string option"
  q_order :: ordering

text \<open>A \<open>File\<close> of the image picker.\<close>

record image_file =
  f_name :: string
  f_type :: string
  f_size :: nat

text \<open>The calls the scripts send to the backend.\<close>

datatype request =
    Select_products query
  | Select_all_products
  | Insert_cart_item string string number string
  | Update_cart_item "string option" number
  | Delete_cart_item string
  | Delete_cart_items_of_user string
  | Insert_order order_data
  | Update_product string product_data
  | Insert_product product_data

record database =
  products_t :: "product list"
  cart_items_t :: "cart_row list"
  orders_t :: "order_row list"

record app =
  currentUser :: "string option"
  cart :: "cart_line list"
  products :: "product list"
  allProducts :: "product list"
  selectedImageFile :: "image_file option"
  localStorage_cart :: "cart_line list option"
  toasts :: "(string \<times> string) list"
  href :: "((rat + number) \<times> string) option"
  requests :: "request list"
  backend :: database

datatype js_error = TypeError

section \<open>JavaScript primitives\<close>

text \<open>Truthiness of a string-valued property: \<open>undefined\<close> and \<open>''\<close> are falsy.\<close>

definition truthy :: "string option \<Rightarrow> bool" where
  "truthy v = (case v of None \<Rightarrow> False | Some s \<Rightarrow> s \<noteq> [])"

text \<open>\<open>xs[index]\<close>: \<open>undefined\<close> outside the array.\<close>

definition at_index :: "'a list \<Rightarrow> int \<Rightarrow> 'a option" where
  "at_index xs index =
     (if 0 \<le> index \<and> index < int (length xs) then Some (xs ! nat index) else None)"

text \<open>\<open>xs.splice(index, 1)\<close>: a negative index counts from the end, and is clamped.\<close>

definition splice1 :: "int \<Rightarrow> 'a list \<Rightarrow> 'a list" where
  "splice1 index xs =
     (let len = int (length xs);
          start = (if index < 0 then max (len + index) 0 else min index len)
      in take (nat start) xs @ drop (nat start + 1) xs)"

text \<open>\<open>s.startsWith(p)\<close>.\<close>

definition startsWith :: "string \<Rightarrow> string \<Rightarrow> bool" where
  "startsWith s p = (take (length p) s = p)"

definition showToast :: "string \<Rightarrow> string \<Rightarrow> app \<Rightarrow> app" where
  "showToast message type st = st\<lparr>toasts := toasts st @ [(message, type)]\<rparr>"

section \<open>The backend collaborator\<close>

text \<open>
  The backend is a hosted service; the scripts see only its answers. Each call is
  given its outcome by the environment: \<open>Refused e\<close> is an answer \<open>{error: e}\<close>, which
  leaves the tables as they are; \<open>Accepted rid\<close> is an answer without error, and \<open>rid\<close>
  is the identifier the backend gives to a row the call inserts (it is not used by an
  update or a delete). An accepted call has the usual effect on the tables. The join
  \<open>products(*)\<close> on \<open>cart_items\<close> follows the foreign key \<open>product_id\<close>, so an insert
  for a product the backend does not have is answered with an error.
\<close>

datatype outcome = Refused string | Accepted string

definition send :: "request \<Rightarrow> app \<Rightarrow> app" where
  "send r st = st\<lparr>requests := requests st @ [r]\<rparr>"

definition with_db :: "(database \<Rightarrow> database) \<Rightarrow> app \<Rightarrow> app" where
  "with_db f st = st\<lparr>backend := f (backend st)\<rparr>"

definition cart_items_update :: "outcome \<Rightarrow> string option \<Rightarrow> number \<Rightarrow> app \<Rightarrow> string option \<times> app" where
  "cart_items_update oc rid q st =
     (let st1 = send (Update_cart_item rid q) st in
      case oc of
        Refused e \<Rightarrow> (Some e, st1)
      | Accepted _ \<Rightarrow>
          (None, with_db (\<lambda>db. db\<lparr>cart_items_t :=
             map (\<lambda>r. if Some (c_id r) = rid then r\<lparr>c_quantity := q\<rparr> else r) (cart_items_t db)\<rparr>) st1))"

definition cart_items_insert ::
  "outcome \<Rightarrow> string \<Rightarrow> string \<Rightarrow> number \<Rightarrow> string \<Rightarrow> app \<Rightarrow> (string + cart_line) \<times> app" where
  "cart_items_insert oc user product_id q sz st =
     (let st1 = send (Insert_cart_item user product_id q sz) st in
      case oc of
        Refused e \<Rightarrow> (Inl e, st1)
      | Accepted rid \<Rightarrow>
          (case find (\<lambda>p. p_id p = product_id) (products_t (backend st1)) of
             None \<Rightarrow> (Inl ''violates foreign key constraint'', st1)
           | Some p \<Rightarrow>
               (Inr \<lparr>l_id = Some rid, l_product = p, l_quantity = q, l_size = sz\<rparr>,
                with_db (\<lambda>db. db\<lparr>cart_items_t := cart_items_t db @
                  [\<lparr>c_id = rid, c_user_id = user, c_product_id = product_id,
                    c_quantity = q, c_size = sz\<rparr>]\<rparr>) st1)))"

definition cart_items_delete :: "outcome \<Rightarrow> string \<Rightarrow> app \<Rightarrow> string option \<times> app" where
  "cart_items_delete oc rid st =
     (let st1 = send (Delete_cart_item rid) st in
      case oc of
        Refused e \<Rightarrow> (Some e, st1)
      | Accepted _ \<Rightarrow>
          (None, with_db (\<lambda>db. db\<lparr>cart_items_t :=
             filter (\<lambda>r. c_id r \<noteq> rid) (cart_items_t db)\<rparr>) st1))"

definition cart_items_delete_user :: "outcome \<Rightarrow> string \<Rightarrow> app \<Rightarrow> string option \<times> app" where
  "cart_items_delete_user oc user st =
     (let st1 = send (Delete_cart_items_of_user user) st in
      case oc of
        Refused e \<Rightarrow> (Some e, st1)
      | Accepted _ \<Rightarrow>
          (None, with_db (\<lambda>db. db\<lparr>cart_items_t :=
             filter (\<lambda>r. c_user_id r \<noteq> user) (cart_items_t db)\<rparr>) st1))"

definition orders_insert :: "outcome \<Rightarrow> order_data \<Rightarrow> app \<Rightarrow> (string + string) \<times> app" where
  "orders_insert oc orderData st =
     (let st1 = send (Insert_order orderData) st in
      case oc of
        Refused e \<Rightarrow> (Inl e, st1)
      | Accepted rid \<Rightarrow>
          (Inr rid, with_db (\<lambda>db. db\<lparr>orders_t := orders_t db @
             [order_data.extend orderData (order_row.fields rid)]\<rparr>) st1))"

section \<open>Cart management\<close>

definition same_line :: "string \<Rightarrow> string \<Rightarrow> cart_line \<Rightarrow> bool" where
  "same_line product_id sz item \<longleftrightarrow> p_id (l_product item) = product_id \<and> l_size item = sz"

text \<open>\<open>existingItem.quantity += quantity\<close> on the item that \<open>cart.find\<close> returned: the
  first one that matches.\<close>

fun add_quantity :: "(cart_line \<Rightarrow> bool) \<Rightarrow> number \<Rightarrow> cart_line list \<Rightarrow> cart_line list" where
  "add_quantity P q [] = []"
| "add_quantity P q (item # items) =
     (if P item then item\<lparr>l_quantity := l_quantity item + q\<rparr> # items
      else item # add_quantity P q items)"

definition addToCart :: "outcome \<Rightarrow> product \<Rightarrow> string \<Rightarrow> number \<Rightarrow> app \<Rightarrow> app" where
  "addToCart oc product sz quantity st =
     (case currentUser st of
        Some user \<Rightarrow>
          (case find (same_line (p_id product) sz) (cart st) of
             Some existingItem \<Rightarrow>
               (case cart_items_update oc (l_id existingItem) (l_quantity existingItem + quantity) st of
                  (Some e, st1) \<Rightarrow> showToast ''Error adding to cart'' ''error'' st1
                | (None, st1) \<Rightarrow>
                    showToast (p_name product @ '' added to cart!'') ''success''
                      (st1\<lparr>cart := add_quantity (same_line (p_id product) sz) quantity (cart st1)\<rparr>))
           | None \<Rightarrow>
               (case cart_items_insert oc user (p_id product) quantity sz st of
                  (Inl e, st1) \<Rightarrow> showToast ''Error adding to cart'' ''error'' st1
                | (Inr row, st1) \<Rightarrow>
                    showToast (p_name product @ '' added to cart!'') ''success''
                      (st1\<lparr>cart := cart st1 @ [row]\<rparr>)))
      | None \<Rightarrow>
          (let items =
             (case find (same_line (p_id product) sz) (cart st) of
                Some existingItem \<Rightarrow> add_quantity (same_line (p_id product) sz) quantity (cart st)
              | None \<Rightarrow> cart st @
                  [\<lparr>l_id = None, l_product = product, l_quantity = quantity, l_size = sz\<rparr>])
           in showToast (p_name product @ '' added to cart!'') ''success''
                (st\<lparr>cart := items, localStorage_cart := Some items\<rparr>)))"

text \<open>The part of \<open>removeFromCart\<close> after the backend call.\<close>

definition remove_line :: "int \<Rightarrow> app \<Rightarrow> app" where
  "remove_line index st =
     (let items = splice1 index (cart st) in
      if currentUser st = None then st\<lparr>cart := items, localStorage_cart := Some items\<rparr>
      else st\<lparr>cart := items\<rparr>)"

definition removeFromCart :: "outcome \<Rightarrow> int \<Rightarrow> app \<Rightarrow> js_error + app" where
  "removeFromCart oc index st =
     (if currentUser st = None then Inr (remove_line index st)
      else case at_index (cart st) index of
        None \<Rightarrow> Inl TypeError
      | Some item \<Rightarrow>
          (case l_id item of
             None \<Rightarrow> Inr (remove_line index st)
           | Some rid \<Rightarrow>
               if rid = [] then Inr (remove_line index st)
               else (case cart_items_delete oc rid st of
                  (Some e, st1) \<Rightarrow> Inr (showToast ''Error removing item'' ''error'' st1)
                | (None, st1) \<Rightarrow> Inr (remove_line index st1))))"

text \<open>The part of \<open>updateCartQuantity\<close> after the backend call;
  \<open>cart[index].quantity = newQuantity\<close> throws when there is no such line.\<close>

definition set_quantity :: "int \<Rightarrow> number \<Rightarrow> app \<Rightarrow> js_error + app" where
  "set_quantity index newQuantity st =
     (case at_index (cart st) index of
        None \<Rightarrow> Inl TypeError
      | Some item \<Rightarrow>
          (let items = (cart st)[nat index := item\<lparr>l_quantity := newQuantity\<rparr>] in
           if currentUser st = None
           then Inr (st\<lparr>cart := items, localStorage_cart := Some items\<rparr>)
           else Inr (st\<lparr>cart := items\<rparr>)))"

definition updateCartQuantity :: "outcome \<Rightarrow> int \<Rightarrow> number \<Rightarrow> app \<Rightarrow> js_error + app" where
  "updateCartQuantity oc index newQuantity st =
     (if newQuantity < 1 then removeFromCart oc index st
      else if currentUser st = None then set_quantity index newQuantity st
      else case at_index (cart st) index of
        None \<Rightarrow> Inl TypeError
      | Some item \<Rightarrow>
          (case l_id item of
             None \<Rightarrow> set_quantity index newQuantity st
           | Some rid \<Rightarrow>
               if rid = [] then set_quantity index newQuantity st
               else (case cart_items_update oc (Some rid) newQuantity st of
                  (Some e, st1) \<Rightarrow> Inr (showToast ''Error updating quantity'' ''error'' st1)
                | (None, st1) \<Rightarrow> set_quantity index newQuantity st1)))"

section \<open>Checkout\<close>

definition snapshot :: "cart_line \<Rightarrow> order_item" where
  "snapshot item =
     \<lparr>oi_product_id = p_id (l_product item), oi_name = p_name (l_product item),
      oi_quantity = l_quantity item, oi_size = l_size item,
      oi_price = p_price (l_product item), oi_image_url = p_image_url (l_product item)\<rparr>"

definition processCheckout :: "outcome \<Rightarrow> outcome \<Rightarrow> app \<Rightarrow> app" where
  "processCheckout oc_order oc_clear st =
     (if cart st = [] then showToast ''Your cart is empty'' ''error'' st
      else case currentUser st of
        None \<Rightarrow> showToast ''Please login to checkout'' ''error'' st
      | Some user \<Rightarrow>
          (let total = foldl (\<lambda>sum item. sum + p_price (l_product item) * l_quantity item)
                        0 (cart st);
               orderData = \<lparr>o_user_id = user, o_items = map snapshot (cart st),
                            o_total = total, o_status = ''pending''\<rparr>
           in case orders_insert oc_order orderData st of
                (Inl e, st1) \<Rightarrow> showToast (''Error processing order: '' @ e) ''error'' st1
              | (Inr orderId, st1) \<Rightarrow>
                  (let st2 = snd (cart_items_delete_user oc_clear user st1)
                   in st2\<lparr>cart := [], localStorage_cart := None,
                          href := Some (toFixed 2 total, orderId)\<rparr>)))"

section \<open>Catalog\<close>

text \<open>The answer to a \<open>select\<close>: an error, or \<open>data\<close>, which may be \<open>null\<close>.\<close>

datatype 'a reply = Failure string | Data "'a option"

definition or_empty :: "'a list option \<Rightarrow> 'a list" where
  "or_empty data = (case data of None \<Rightarrow> [] | Some rows \<Rightarrow> rows)"

record filters =
  fl_category :: "string option"
  fl_search :: "string option"
  fl_size :: "string option"
  fl_sort :: "string option"

definition build_query :: "filters \<Rightarrow> query" where
  "build_query filters =
     \<lparr>q_category = (if truthy (fl_category filters) then fl_category filters else None),
      q_name_ilike = (case fl_search filters of
                        None \<Rightarrow> None
                      | Some s \<Rightarrow> if s = [] then None else Some (''%'' @ s @ ''%'')),
      q_order = (if fl_sort filters = Some ''price-low'' then Price_ascending
                 else if fl_sort filters = Some ''price-high'' then Price_descending
                 else if fl_sort filters = Some ''popular'' then Featured_descending
                 else Created_at_descending)\<rparr>"

text \<open>\<open>product.sizes && product.sizes.includes(size)\<close>.\<close>

definition has_size :: "string \<Rightarrow> product \<Rightarrow> bool" where
  "has_size sz p = (case p_sizes p of None \<Rightarrow> False | Some zs \<Rightarrow> sz \<in> set zs)"

definition loadProducts :: "product list reply \<Rightarrow> filters \<Rightarrow> app \<Rightarrow> app" where
  "loadProducts answer filters st =
     (let st1 = send (Select_products (build_query filters)) st in
      case answer of
        Failure e \<Rightarrow> showToast ''Error loading products'' ''error'' st1
      | Data data \<Rightarrow>
          (let fetched = or_empty data in
           st1\<lparr>allProducts := fetched,
               products := (case fl_size filters of
                              None \<Rightarrow> fetched
                            | Some sz \<Rightarrow> if sz = [] then fetched
                                         else filter (has_size sz) fetched)\<rparr>))"

section \<open>Admin management\<close>

text \<open>An accepted \<open>update\<close> overwrites the columns that the data gives, in the rows
  with the identifier; an accepted \<open>insert\<close> adds a row whose other columns are blank.\<close>

definition assign :: "'a option \<Rightarrow> 'a \<Rightarrow> 'a" where
  "assign v old = (case v of None \<Rightarrow> old | Some new \<Rightarrow> new)"

definition apply_data :: "product_data \<Rightarrow> product \<Rightarrow> product" where
  "apply_data d p =
     \<lparr>p_id = assign (d_id d) (p_id p), p_name = assign (d_name d) (p_name p),
      p_description = assign (d_description d) (p_description p),
      p_price = assign (d_price d) (p_price p),
      p_category = assign (d_category d) (p_category p),
      p_image_url = assign (d_image_url d) (p_image_url p),
      p_sizes = (case d_sizes d of None \<Rightarrow> p_sizes p | Some zs \<Rightarrow> Some zs),
      p_stock = assign (d_stock d) (p_stock p), p_sku = assign (d_sku d) (p_sku p),
      p_featured = assign (d_featured d) (p_featured p)\<rparr>"

definition blank :: "string \<Rightarrow> product" where
  "blank rid =
     \<lparr>p_id = rid, p_name = [], p_description = [], p_price = 0, p_category = [],
      p_image_url = [], p_sizes = None, p_stock = 0, p_sku = [], p_featured = False\<rparr>"

definition products_update :: "outcome \<Rightarrow> string \<Rightarrow> product_data \<Rightarrow> app \<Rightarrow> string option \<times> app" where
  "products_update oc rid d st =
     (let st1 = send (Update_product rid d) st in
      case oc of
        Refused e \<Rightarrow> (Some e, st1)
      | Accepted _ \<Rightarrow>
          (None, with_db (\<lambda>db. db\<lparr>products_t :=
             map (\<lambda>p. if p_id p = rid then apply_data d p else p) (products_t db)\<rparr>) st1))"

definition products_insert :: "outcome \<Rightarrow> product_data \<Rightarrow> app \<Rightarrow> string option \<times> app" where
  "products_insert oc d st =
     (let st1 = send (Insert_product d) st in
      case oc of
        Refused e \<Rightarrow> (Some e, st1)
      | Accepted rid \<Rightarrow>
          (None, with_db (\<lambda>db. db\<lparr>products_t :=
             products_t db @ [apply_data d (blank rid)]\<rparr>) st1))"

text \<open>\<open>loadAdminProducts\<close> of the storefront script: nothing without the table body
  \<open>admin-products-body\<close>, and a fetch only while \<open>allProducts\<close> is empty.\<close>

definition loadAdminProducts :: "bool \<Rightarrow> product list reply \<Rightarrow> app \<Rightarrow> app" where
  "loadAdminProducts tbody answer st =
     (if \<not> tbody then st
      else if allProducts st = [] then
        (let st1 = send Select_all_products st in
         case answer of
           Failure e \<Rightarrow> st1
         | Data data \<Rightarrow> st1\<lparr>allProducts := or_empty data\<rparr>)
      else st)"

definition no_filters :: filters where
  "no_filters = \<lparr>fl_category = None, fl_search = None, fl_size = None, fl_sort = None\<rparr>"

text \<open>What the two reloads after a save are answered with.\<close>

record reloads =
  rl_products :: "product list reply"
  rl_tbody :: bool
  rl_admin :: "product list reply"

definition saveAdminProduct :: "outcome \<Rightarrow> reloads \<Rightarrow> product_data \<Rightarrow> app \<Rightarrow> app" where
  "saveAdminProduct oc rl productData st =
     (case d_id productData of
        Some rid \<Rightarrow>
          if rid \<noteq> [] then
            (case products_update oc rid productData st of
               (Some e, st1) \<Rightarrow> showToast (''Error saving product: '' @ e) ''error'' st1
             | (None, st1) \<Rightarrow>
                 loadAdminProducts (rl_tbody rl) (rl_admin rl)
                   (loadProducts (rl_products rl) no_filters
                     (showToast ''Product updated successfully!'' ''success'' st1)))
          else
            (case products_insert oc productData st of
               (Some e, st1) \<Rightarrow> showToast (''Error saving product: '' @ e) ''error'' st1
             | (None, st1) \<Rightarrow>
                 loadAdminProducts (rl_tbody rl) (rl_admin rl)
                   (loadProducts (rl_products rl) no_filters
                     (showToast ''Product created successfully!'' ''success'' st1)))
      | None \<Rightarrow>
          (case products_insert oc productData st of
             (Some e, st1) \<Rightarrow> showToast (''Error saving product: '' @ e) ''error'' st1
           | (None, st1) \<Rightarrow>
               loadAdminProducts (rl_tbody rl) (rl_admin rl)
                 (loadProducts (rl_products rl) no_filters
                   (showToast ''Product created successfully!'' ''success'' st1))))"

text \<open>The standalone admin page (\<open>admin.js\<close>) has its own \<open>loadProducts\<close>, which
  fetches every product when the table body \<open>products-tbody\<close> is there, and its own
  \<open>saveProduct\<close>, which reads the identifier from the hidden form field \<open>product-id\<close>
  and the data from the other fields. Its variables \<open>allProducts\<close> and its
  notifications are those of the same record.\<close>

definition loadProducts_admin :: "bool \<Rightarrow> product list reply \<Rightarrow> app \<Rightarrow> app" where
  "loadProducts_admin tbody answer st =
     (if \<not> tbody then st
      else
        (let st1 = send Select_all_products st in
         case answer of
           Failure e \<Rightarrow> st1
         | Data data \<Rightarrow> st1\<lparr>allProducts := or_empty data\<rparr>))"

definition saveProduct ::
  "outcome \<Rightarrow> bool \<Rightarrow> product list reply \<Rightarrow> string option \<Rightarrow> product_data \<Rightarrow> app \<Rightarrow> app" where
  "saveProduct oc tbody answer productId productData st =
     (case productId of
        Some rid \<Rightarrow>
          if rid \<noteq> [] then
            (case products_update oc rid productData st of
               (Some e, st1) \<Rightarrow> showToast (''Error: '' @ e) ''error'' st1
             | (None, st1) \<Rightarrow>
                 loadProducts_admin tbody answer
                   (showToast ''Product updated successfully'' ''success'' st1))
          else
            (case products_insert oc productData st of
               (Some e, st1) \<Rightarrow> showToast (''Error: '' @ e) ''error'' st1
             | (None, st1) \<Rightarrow>
                 loadProducts_admin tbody answer
                   (showToast ''Product added successfully'' ''success'' st1))
      | None \<Rightarrow>
          (case products_insert oc productData st of
             (Some e, st1) \<Rightarrow> showToast (''Error: '' @ e) ''error'' st1
           | (None, st1) \<Rightarrow>
               loadProducts_admin tbody answer
                 (showToast ''Product added successfully'' ''success'' st1)))"

section \<open>Image picker\<close>

text \<open>The \<open>change\<close> listener that \<open>initializeImageUpload\<close> puts on the file input;
  \<open>chosen\<close> is \<open>e.target.files[0]\<close>.\<close>

definition initializeImageUpload_change :: "image_file option \<Rightarrow> app \<Rightarrow> app" where
  "initializeImageUpload_change chosen st =
     (case chosen of
        None \<Rightarrow> st
      | Some file \<Rightarrow>
          if \<not> startsWith (f_type file) ''image/''
          then showToast ''Please select an image file'' ''error'' st
          else if f_size file > 5 * 1024 * 1024
          then showToast ''Image must be less than 5MB'' ''error'' st
          else st\<lparr>selectedImageFile := Some file\<rparr>)"

section \<open>Analytics\<close>

record revenue =
  r_total :: number
  r_lastMonth :: number
  r_change :: number

definition no_revenue :: revenue where
  "no_revenue = \<lparr>r_total = 0, r_lastMonth = 0, r_change = 0\<rparr>"

text \<open>\<open>rows?.reduce((sum, order) => sum + parseFloat(order.total), 0) || 0\<close>.\<close>

definition sum_totals :: "number list option \<Rightarrow> number" where
  "sum_totals rows =
     (case rows of
        None \<Rightarrow> 0
      | Some totals \<Rightarrow>
          (let s = foldl (\<lambda>sum total. sum + parseFloat (Inr total)) 0 totals
           in if falsy s then 0 else s))"

text \<open>\<open>client\<close> says whether \<open>getSupabaseClient\<close> returned one; the two answers are
  those to the queries for the paid orders of this month and of the last one.
  \<open>change\<close> is the string of \<open>toFixed(1)\<close>, or the number 0, and is returned through
  \<open>parseFloat\<close>.\<close>

definition calculateRevenue :: "bool \<Rightarrow> number list reply \<Rightarrow> number list reply \<Rightarrow> revenue" where
  "calculateRevenue client currentMonth lastMonth =
     (if \<not> client then no_revenue
      else case currentMonth of
        Failure e \<Rightarrow> no_revenue
      | Data current \<Rightarrow>
          (case lastMonth of
             Failure e \<Rightarrow> no_revenue
           | Data previous \<Rightarrow>
               (let currentRevenue = sum_totals current;
                    lastRevenue = sum_totals previous;
                    change = (if lastRevenue > 0
                              then toFixed 1 ((currentRevenue - lastRevenue) / lastRevenue * Finite 100)
                              else Inr 0)
                in \<lparr>r_total = currentRevenue, r_lastMonth = lastRevenue,
                    r_change = parseFloat change\<rparr>)))"

section \<open>A shop to run the operations on\<close>

text \<open>The first two products that \<open>seedDatabase\<close> inserts, at 89.99 and 75.00, and two
  more at 19.99 and 29.99. A price written in decimal is the double nearest to it.\<close>

definition oxford :: product where
  "oxford =
     \<lparr>p_id = ''p-oxford'', p_name = ''Classic Oxford Shirt'', p_description = ''Timeless oxford weave shirt'',
      p_price = to_double (8999 / 100), p_category = ''formal'', p_image_url = ''oxford.jpg'',
      p_sizes = Some [''S'', ''M'', ''L'', ''XL''], p_stock = Finite 50, p_sku = ''OXF-001'',
      p_featured = True\<rparr>"

definition linen :: product where
  "linen =
     \<lparr>p_id = ''p-linen'', p_name = ''Linen Summer Shirt'', p_description = ''Breathable linen shirt'',
      p_price = Finite 75, p_category = ''casual'', p_image_url = ''linen.jpg'',
      p_sizes = Some [''S'', ''M'', ''L'', ''XL'', ''XXL''], p_stock = Finite 35, p_sku = ''LIN-002'',
      p_featured = True\<rparr>"

definition tee :: product where
  "tee =
     \<lparr>p_id = ''p-tee'', p_name = ''Plain Tee'', p_description = ''Cotton tee'',
      p_price = to_double (1999 / 100), p_category = ''casual'', p_image_url = ''tee.jpg'',
      p_sizes = Some [''S'', ''M'', ''L''], p_stock = Finite 20, p_sku = ''TEE-003'',
      p_featured = False\<rparr>"

definition polo :: product where
  "polo =
     \<lparr>p_id = ''p-polo'', p_name = ''Pique Polo'', p_description = ''Cotton polo'',
      p_price = to_double (2999 / 100), p_category = ''casual'', p_image_url = ''polo.jpg'',
      p_sizes = Some [''S'', ''M'', ''L''], p_stock = Finite 20, p_sku = ''POL-004'',
      p_featured = False\<rparr>"

definition shop :: database where
  "shop = \<lparr>products_t = [oxford, linen], cart_items_t = [], orders_t = []\<rparr>"

definition guest :: app where
  "guest =
     \<lparr>currentUser = None, cart = [], products = [oxford, linen], allProducts = [oxford, linen],
      selectedImageFile = None, localStorage_cart = None, toasts = [], href = None,
      requests = [], backend = shop\<rparr>"

text \<open>A signed-in customer whose cart holds an Oxford shirt in M and two linen shirts
  in L, each line with its backend row.\<close>

definition customer_cart :: "cart_line list" where
  "customer_cart =
     [\<lparr>l_id = Some ''c1'', l_product = oxford, l_quantity = Finite 1, l_size = ''M''\<rparr>,
      \<lparr>l_id = Some ''c2'', l_product = linen, l_quantity = Finite 2, l_size = ''L''\<rparr>]"

definition customer :: app where
  "customer =
     guest\<lparr>currentUser := Some ''u1'', cart := customer_cart,
           backend := shop\<lparr>cart_items_t :=
             [\<lparr>c_id = ''c1'', c_user_id = ''u1'', c_product_id = ''p-oxford'', c_quantity = Finite 1, c_size = ''M''\<rparr>,
              \<lparr>c_id = ''c2'', c_user_id = ''u1'', c_product_id = ''p-linen'', c_quantity = Finite 2, c_size = ''L''\<rparr>]\<rparr>\<rparr>"

text \<open>A visitor who is not signed in, with an Oxford shirt in M in the cart.\<close>

definition visitor_cart :: "cart_line list" where
  "visitor_cart = [\<lparr>l_id = None, l_product = oxford, l_quantity = Finite 1, l_size = ''M''\<rparr>]"

definition visitor :: app where
  "visitor = guest\<lparr>cart := visitor_cart, localStorage_cart := Some visitor_cart\<rparr>"

text \<open>Carts of a signed-in customer: three Oxford shirts; and an Oxford shirt, two tees
  and a polo, in this order and in the opposite one.\<close>

definition line :: "product \<Rightarrow> rat \<Rightarrow> cart_line" where
  "line p q = \<lparr>l_id = None, l_product = p, l_quantity = Finite q, l_size = ''M''\<rparr>"

definition shopper :: "cart_line list \<Rightarrow> app" where
  "shopper items = guest\<lparr>currentUser := Some ''u1'', cart := items\<rparr>"

section \<open>Vocabulary of the properties\<close>

text \<open>An operation was abandoned with an error notification: the cart in memory, the
  cart in local storage and the backend tables are as before.\<close>

definition aborted :: "string \<Rightarrow> app \<Rightarrow> app \<Rightarrow> bool" where
  "aborted message st st' \<longleftrightarrow>
     cart st' = cart st \<and> localStorage_cart st' = localStorage_cart st \<and>
     backend st' = backend st \<and> toasts st' = toasts st @ [(message, ''error'')]"

text \<open>An operation worked on the local cart alone: the cart was written to local
  storage, no call went to the backend, and no error was notified.\<close>

definition kept_locally :: "app \<Rightarrow> app \<Rightarrow> bool" where
  "kept_locally st st' \<longleftrightarrow>
     localStorage_cart st' = Some (cart st') \<and> requests st' = requests st \<and>
     backend st' = backend st \<and>
     filter (\<lambda>t. snd t = ''error'') (toasts st') = filter (\<lambda>t. snd t = ''error'') (toasts st)"


text \<open>The backend has a product with this identifier.\<close>

definition known :: "string \<Rightarrow> app \<Rightarrow> bool" where
  "known product_id st \<longleftrightarrow> find (\<lambda>p. p_id p = product_id) (products_t (backend st)) \<noteq> None"

fun accepted :: "outcome \<Rightarrow> bool" where
  "accepted (Accepted rid) = True"
| "accepted (Refused e) = False"







text \<open>The backend cart rows of a user.\<close>

definition cart_rows_of :: "string \<Rightarrow> app \<Rightarrow> cart_row list" where
  "cart_rows_of user st = filter (\<lambda>r. c_user_id r = user) (cart_items_t (backend st))"

text \<open>The total of cart lines as the code adds it up: from 0, line after line in cart
  order, each product of price and quantity and each partial sum rounded to a double.
  Beside it, the sum of the same products in exact arithmetic.\<close>

definition cart_total :: "cart_line list \<Rightarrow> number" where
  "cart_total items =
     foldl (\<lambda>sum item. sum + p_price (l_product item) * l_quantity item) 0 items"

fun exact_value :: "number \<Rightarrow> rat" where
  "exact_value (Finite a) = a"
| "exact_value x = 0"

definition exact_total :: "cart_line list \<Rightarrow> rat" where
  "exact_total items =
     (\<Sum>item\<leftarrow>items. exact_value (p_price (l_product item)) * exact_value (l_quantity item))"

text \<open>The row of \<open>orders\<close> that a checkout of the given cart lines is to leave: a copy
  of each line, and the total.\<close>

definition placed_order :: "string \<Rightarrow> string \<Rightarrow> cart_line list \<Rightarrow> order_row" where
  "placed_order rid user items =
     \<lparr>o_user_id = user, o_items = map snapshot items, o_total = cart_total items,
      o_status = ''pending'', o_id = rid\<rparr>"

text \<open>An edit of the Oxford shirt's price, and reloads that find no table to fill.\<close>

definition no_data :: product_data where
  "no_data =
     \<lparr>d_id = None, d_name = None, d_description = None, d_price = None, d_category = None,
      d_image_url = None, d_sizes = None, d_stock = None, d_sku = None, d_featured = None\<rparr>"

definition price_edit :: product_data where
  "price_edit = no_data\<lparr>d_id := Some ''p-oxford'', d_price := Some (to_double (9999 / 100))\<rparr>"

definition quiet :: reloads where
  "quiet = \<lparr>rl_products = Data None, rl_tbody = False, rl_admin = Data None\<rparr>"

text \<open>A catalog filter: casual shirts in XXL, cheapest first.\<close>

definition shirts_in_xxl :: filters where
  "shirts_in_xxl =
     \<lparr>fl_category = Some ''casual'', fl_search = Some ''shirt'', fl_size = Some ''XXL'',
      fl_sort = Some ''price-low''\<rparr>"

text \<open>The percent change of the revenue as the code computes it, in double
  arithmetic, before \<open>toFixed(1)\<close>.\<close>

definition percent_change :: "number \<Rightarrow> number \<Rightarrow> number" where
  "percent_change current previous = (current - previous) / previous * Finite 100"

text \<open>The calls an operation sent, from the state before it and the state after it, and
  those among them that write.\<close>

fun is_write :: "request \<Rightarrow> bool" where
  "is_write (Select_products q) = False"
| "is_write Select_all_products = False"
| "is_write r = True"

definition issued :: "app \<Rightarrow> app \<Rightarrow> request list" where
  "issued st st' = drop (length (requests st)) (requests st')"

definition writes :: "app \<Rightarrow> app \<Rightarrow> request list" where
  "writes st st' = filter is_write (issued st st')"

text \<open>The two checks of the image picker, and a file that just passes them.\<close>

definition acceptable :: "image_file \<Rightarrow> bool" where
  "acceptable file \<longleftrightarrow> startsWith (f_type file) ''image/'' \<and> f_size file \<le> 5 * 1024 * 1024"

definition photo :: image_file where
  "photo = \<lparr>f_name = ''shirt.png'', f_type = ''image/png'', f_size = 5242880\<rparr>"

section \<open>Properties\<close>

subsection \<open>Rounding\<close>

text \<open>The exponent found is the binary exponent, and an integer of size at most
  \<open>2^53\<close> is a double.\<close>

lemma round_even_of_int [simp]: "round_even (of_int k) = k"
  by (simp add: round_even_def)

lemma quotient_of_pos:
  assumes "0 < a"
  shows "0 < fst (quotient_of a)" and "0 < snd (quotient_of a)"
    and "a = of_int (fst (quotient_of a)) / of_int (snd (quotient_of a))"
proof -
  obtain p q where pq: "quotient_of a = (p, q)" by (cases "quotient_of a")
  then have q: "0 < q" by (rule quotient_of_denom_pos)
  have a: "a = of_int p / of_int q" using pq by (rule quotient_of_div)
  with assms q have "0 < p" by (simp add: zero_less_divide_iff)
  with q a pq show "0 < fst (quotient_of a)" and "0 < snd (quotient_of a)"
    and "a = of_int (fst (quotient_of a)) / of_int (snd (quotient_of a))"
    by simp_all
qed

lemma bitlen_powi:
  assumes "0 < (p::int)"
  shows "2 powi (bitlen p - 1) \<le> (of_int p :: rat)" and "(of_int p :: rat) < 2 powi bitlen p"
proof -
  have b: "1 \<le> bitlen p" using assms by (simp add: bitlen_alt_def)
  have "2 ^ nat (bitlen p - 1) \<le> p" and "p < 2 ^ nat (bitlen p)"
    using bitlen_bounds [OF assms] by simp_all
  then have "(of_int (2 ^ nat (bitlen p - 1)) :: rat) \<le> of_int p"
    and "(of_int p :: rat) < of_int (2 ^ nat (bitlen p))"
    by (simp_all only: of_int_le_iff of_int_less_iff)
  then show "2 powi (bitlen p - 1) \<le> (of_int p :: rat)" and "(of_int p :: rat) < 2 powi bitlen p"
    using b by (simp_all add: power_int_def)
qed

lemma exponent_bounds:
  assumes "0 < a"
  shows "2 powi exponent a \<le> a" and "a < 2 powi (exponent a + 1)"
proof -
  define p q where "p = fst (quotient_of a)" and "q = snd (quotient_of a)"
  have p: "0 < p" and q: "0 < q" and a: "a = of_int p / of_int q"
    using quotient_of_pos [OF assms] by (simp_all add: p_def q_def)
  define d where "d = bitlen p - bitlen q"
  have e: "exponent a = (if 2 powi d \<le> a then d else d - 1)"
    by (simp add: exponent_def Let_def d_def p_def q_def)
  have qpos: "(0::rat) < of_int q" using q by simp
  have "2 powi (bitlen p - 1) / 2 powi bitlen q < a"
  proof -
    have "2 powi (bitlen p - 1) / 2 powi bitlen q < (2 powi (bitlen p - 1) :: rat) / of_int q"
      using bitlen_powi(2) [OF q] qpos by (intro divide_strict_left_mono) simp_all
    also have "\<dots> \<le> of_int p / of_int q"
      using bitlen_powi(1) [OF p] qpos by (intro divide_right_mono) simp_all
    finally show ?thesis using a by simp
  qed
  moreover have "(2::rat) powi (d - 1) = 2 powi (bitlen p - 1) / 2 powi bitlen q"
    using power_int_diff [of "2::rat" "bitlen p - 1" "bitlen q"] by (simp add: d_def algebra_simps)
  ultimately have lower: "2 powi (d - 1) < a"
    by simp
  have "a < 2 powi bitlen p / 2 powi (bitlen q - 1)"
  proof -
    have "a = of_int p / of_int q" by (rule a)
    also have "\<dots> < 2 powi bitlen p / of_int q"
      using bitlen_powi(2) [OF p] qpos by (intro divide_strict_right_mono) simp_all
    also have "\<dots> \<le> 2 powi bitlen p / 2 powi (bitlen q - 1)"
      using bitlen_powi(1) [OF q] qpos by (intro divide_left_mono) simp_all
    finally show ?thesis .
  qed
  moreover have "(2::rat) powi (d + 1) = 2 powi bitlen p / 2 powi (bitlen q - 1)"
    using power_int_diff [of "2::rat" "bitlen p" "bitlen q - 1"] by (simp add: d_def algebra_simps)
  ultimately have upper: "a < 2 powi (d + 1)"
    by simp
  show "2 powi exponent a \<le> a" and "a < 2 powi (exponent a + 1)"
    using lower upper by (simp_all add: e)
qed

lemma powi_less_iff: "(2::rat) powi m < 2 powi n \<longleftrightarrow> m < n"
proof
  assume "(2::rat) powi m < 2 powi n"
  show "m < n"
  proof (rule ccontr)
    assume "\<not> m < n"
    then have "(2::rat) powi n \<le> 2 powi m"
      by (intro power_int_increasing) simp_all
    with \<open>2 powi m < 2 powi n\<close> show False by simp
  qed
next
  assume "m < n"
  then show "(2::rat) powi m < 2 powi n"
    by (intro power_int_strict_increasing) simp_all
qed

lemma to_double_exact:
  assumes e: "- 1022 \<le> exponent \<bar>x\<bar>" "exponent \<bar>x\<bar> < 1024"
    and k: "x / 2 powi (exponent \<bar>x\<bar> - 52) = of_int k"
  shows "to_double x = Finite x"
proof (cases "x = 0")
  case True
  then show ?thesis by (simp add: to_double_def)
next
  case False
  have "of_int k * 2 powi (exponent \<bar>x\<bar> - 52) = x"
    using k [symmetric] by simp
  then show ?thesis
    using False e k by (simp add: to_double_def Let_def max_def)
qed

lemma to_double_int:
  assumes "\<bar>n\<bar> \<le> 2 ^ 53"
  shows "to_double (of_int n) = Finite (of_int n)"
proof (cases "n = 0")
  case True
  then show ?thesis by (simp add: to_double_def)
next
  case False
  define a :: rat where "a = \<bar>of_int n\<bar>"
  define e where "e = exponent a"
  have a1: "1 \<le> a" using False by (simp add: a_def flip: of_int_abs)
  have a53: "a \<le> 2 powi 53"
    using assms by (simp add: a_def flip: of_int_abs)
  have lo: "2 powi e \<le> a" and hi: "a < 2 powi (e + 1)"
    using exponent_bounds [of a] a1 by (simp_all add: e_def)
  have "(2::rat) powi 0 < 2 powi (e + 1)" using a1 hi by simp
  then have "0 < e + 1" by (simp only: powi_less_iff)
  then have e0: "0 \<le> e" by simp
  have "(2::rat) powi 53 < 2 powi 54" by (simp only: powi_less_iff)
  then have "(2::rat) powi e < 2 powi 54" using lo a53 by linarith
  then have "e < 54" by (simp only: powi_less_iff)
  then have e53: "e \<le> 53" by simp
  have "\<exists>k. (of_int n :: rat) / 2 powi (e - 52) = of_int k"
  proof (cases "e \<le> 52")
    case True
    then have "(2::rat) powi (e - 52) = 1 / 2 ^ nat (52 - e)"
      by (simp add: power_int_def field_simps)
    then have "(of_int n :: rat) / 2 powi (e - 52) = of_int (n * 2 ^ nat (52 - e))"
      by simp
    then show ?thesis ..
  next
    case False
    then have e: "e = 53" using e53 by simp
    then have "a = 2 ^ 53" using lo a53 by simp
    then have "\<bar>n\<bar> = 2 ^ 53"
      by (simp add: a_def flip: of_int_abs)
    then have "even \<bar>n\<bar>" by simp
    then have "n = 2 * (n div 2)" by simp
    then have "(of_int n :: rat) = 2 * of_int (n div 2)"
      by (metis of_int_mult of_int_numeral)
    then have "(of_int n :: rat) / 2 powi (e - 52) = of_int (n div 2)"
      by (simp add: e)
    then show ?thesis ..
  qed
  then obtain k where "(of_int n :: rat) / 2 powi (e - 52) = of_int k" ..
  then show ?thesis
    using e0 e53 by (intro to_double_exact [where k = k]) (simp_all add: e_def a_def)
qed

lemma to_double_numeral:
  "(numeral w :: int) \<le> 2 ^ 53 \<Longrightarrow> to_double (numeral w) = Finite (numeral w)"
  using to_double_int [of "numeral w"] by simp

lemma to_double_1: "to_double 1 = Finite 1"
  using to_double_int [of 1] by simp

lemma to_double_0: "to_double 0 = Finite 0"
  by (simp add: to_double_def)

lemmas number_eval = zero_number_def one_number_def minus_number_def to_double_numeral
  to_double_1 to_double_0



text \<open>\<open>toFixed\<close> of a finite number below \<open>10^21\<close> denotes a multiple of \<open>10^-d\<close>, at
  most half a unit of the last place away from the number.\<close>

lemma round_decimal_grid: "\<exists>n::int. round_decimal d a = of_int n / 10 ^ d"
proof -
  define m where "m = \<lfloor>\<bar>a\<bar> * 10 ^ d + 1 / 2\<rfloor>"
  have "round_decimal d a = of_int ((if a < 0 then - 1 else if a = 0 then 0 else 1) * m) / 10 ^ d"
    by (simp add: round_decimal_def m_def sgn_if)
  then show ?thesis by blast
qed

lemma round_decimal_near: "\<bar>round_decimal d a - a\<bar> \<le> 1 / (2 * 10 ^ d)"
proof -
  define y where "y = \<bar>a\<bar> * 10 ^ d"
  define m where "m = \<lfloor>y + 1 / 2\<rfloor>"
  have "of_int m \<le> y + 1 / 2" and "y + 1 / 2 < of_int m + 1"
    unfolding m_def by linarith+
  then have half: "\<bar>of_int m - y\<bar> \<le> 1 / 2" by linarith
  have "round_decimal d a - a = sgn a * ((of_int m - y) / 10 ^ d)"
    unfolding round_decimal_def m_def y_def
    by (simp add: field_simps sgn_if)
  then have "\<bar>round_decimal d a - a\<bar> = \<bar>sgn a\<bar> * (\<bar>of_int m - y\<bar> / 10 ^ d)"
    by (simp add: abs_mult)
  also have "\<dots> \<le> 1 * (\<bar>of_int m - y\<bar> / 10 ^ d)"
    by (rule mult_right_mono) (simp_all add: sgn_if)
  also have "\<dots> = \<bar>of_int m - y\<bar> / 10 ^ d"
    by simp
  also have "\<dots> \<le> (1 / 2) / 10 ^ d"
    by (rule divide_right_mono [OF half]) simp
  finally show ?thesis by simp
qed

text \<open>The equations that run the operations on the example states.\<close>

lemmas cart_eval = addToCart_def removeFromCart_def updateCartQuantity_def processCheckout_def
  cart_items_update_def cart_items_insert_def cart_items_delete_def cart_items_delete_user_def
  orders_insert_def send_def with_db_def showToast_def remove_line_def set_quantity_def
  at_index_def splice1_def same_line_def truthy_def Let_def

lemmas admin_eval = saveAdminProduct_def saveProduct_def products_update_def products_insert_def
  loadProducts_def loadAdminProducts_def loadProducts_admin_def build_query_def or_empty_def
  has_size_def apply_data_def assign_def blank_def no_filters_def

lemmas shop_eval = guest_def visitor_def visitor_cart_def customer_def customer_cart_def shop_def
  oxford_def linen_def no_data_def price_edit_def quiet_def

subsection \<open>C1: one cart line for a product and size\<close>


lemma same_line_quantity [simp]:
  "same_line pid sz (item\<lparr>l_quantity := q\<rparr>) = same_line pid sz item"
  by (simp add: same_line_def)



text \<open>What one call does to the cart.\<close>

lemma addToCart_currentUser [simp]:
  "currentUser (addToCart oc product sz q st) = currentUser st"
  by (auto simp: addToCart_def cart_items_update_def cart_items_insert_def send_def with_db_def
      showToast_def Let_def split: option.splits outcome.splits)

lemma addToCart_products_t [simp]:
  "products_t (backend (addToCart oc product sz q st)) = products_t (backend st)"
  by (auto simp: addToCart_def cart_items_update_def cart_items_insert_def send_def with_db_def
      showToast_def Let_def split: option.splits outcome.splits)

lemma addToCart_known [simp]:
  "known pid (addToCart oc product sz q st) = known pid st"
  by (simp add: known_def)


















subsection \<open>C2: the order is a snapshot of the cart\<close>

lemma processCheckout_orders_t:
  assumes "cart st \<noteq> []" "currentUser st = Some user"
  shows "orders_t (backend (processCheckout (Accepted rid) oc_clear st)) =
         orders_t (backend st) @ [placed_order rid user (cart st)]"
  using assms
  by (cases oc_clear)
    (simp_all add: processCheckout_def orders_insert_def cart_items_delete_user_def send_def
      with_db_def Let_def placed_order_def cart_total_def order_data.extend_def
      order_row.fields_def)

lemma loadProducts_backend [simp]: "backend (loadProducts answer fl st) = backend st"
  by (cases answer) (simp_all add: loadProducts_def send_def showToast_def Let_def)

lemma loadAdminProducts_backend [simp]: "backend (loadAdminProducts tbody answer st) = backend st"
  by (cases answer) (simp_all add: loadAdminProducts_def send_def Let_def)

lemma loadProducts_admin_backend [simp]: "backend (loadProducts_admin tbody answer st) = backend st"
  by (cases answer) (simp_all add: loadProducts_admin_def send_def Let_def)

lemma products_update_orders_t [simp]:
  "orders_t (backend (snd (products_update oc rid d st))) = orders_t (backend st)"
  by (cases oc) (simp_all add: products_update_def send_def with_db_def Let_def)

lemma products_insert_orders_t [simp]:
  "orders_t (backend (snd (products_insert oc d st))) = orders_t (backend st)"
  by (cases oc) (simp_all add: products_insert_def send_def with_db_def Let_def)

lemma showToast_backend [simp]: "backend (showToast m t st) = backend st"
  by (simp add: showToast_def)

lemma saveAdminProduct_orders_t:
  "orders_t (backend (saveAdminProduct oc rl d st)) = orders_t (backend st)"
proof -
  have u: "orders_t (backend (case products_update oc rid d st of
        (None, st1) \<Rightarrow> f st1 | (Some e, st1) \<Rightarrow> g e st1)) = orders_t (backend st)"
    if "\<And>s. backend (f s) = backend s" "\<And>e s. backend (g e s) = backend s" for rid f g
    using products_update_orders_t [of oc rid d st] that
    by (cases "products_update oc rid d st") (auto split: option.splits)
  have i: "orders_t (backend (case products_insert oc d st of
        (None, st1) \<Rightarrow> f st1 | (Some e, st1) \<Rightarrow> g e st1)) = orders_t (backend st)"
    if "\<And>s. backend (f s) = backend s" "\<And>e s. backend (g e s) = backend s" for f g
    using products_insert_orders_t [of oc d st] that
    by (cases "products_insert oc d st") (auto split: option.splits)
  show ?thesis
    unfolding saveAdminProduct_def
    by (auto split: option.splits intro!: u i)
qed

lemma saveProduct_orders_t:
  "orders_t (backend (saveProduct oc tbody answer productId d st)) = orders_t (backend st)"
proof -
  have u: "orders_t (backend (case products_update oc rid d st of
        (None, st1) \<Rightarrow> f st1 | (Some e, st1) \<Rightarrow> g e st1)) = orders_t (backend st)"
    if "\<And>s. backend (f s) = backend s" "\<And>e s. backend (g e s) = backend s" for rid f g
    using products_update_orders_t [of oc rid d st] that
    by (cases "products_update oc rid d st") (auto split: option.splits)
  have i: "orders_t (backend (case products_insert oc d st of
        (None, st1) \<Rightarrow> f st1 | (Some e, st1) \<Rightarrow> g e st1)) = orders_t (backend st)"
    if "\<And>s. backend (f s) = backend s" "\<And>e s. backend (g e s) = backend s" for f g
    using products_insert_orders_t [of oc d st] that
    by (cases "products_insert oc d st") (auto split: option.splits)
  show ?thesis
    unfolding saveProduct_def
    by (auto split: option.splits intro!: u i)
qed

text \<open>
  C2, as stated, fails: the total is not the sum of price times quantity over the
  lines, because each product and each partial sum is rounded to a double. Three Oxford
  shirts at 89.99 give 269.96999999999997, which is not three times the price. An
  Oxford shirt, two tees at 19.99 and a polo at 29.99 give 159.96 in this order and
  159.95999999999998 in the opposite order, though the sum is the same.
\<close>

theorem processCheckout_total_rounds_counterexample:
  "map o_total (orders_t (backend (processCheckout (Accepted ''o1'') (Accepted [])
       (shopper [line oxford 3])))) = [Finite (4749362466410987 / 17592186044416)]
   \<and> exact_total [line oxford 3] = 18997449865643949 / 70368744177664
   \<and> map o_total (orders_t (backend (processCheckout (Accepted ''o1'') (Accepted [])
       (shopper [line oxford 1, line tee 2, line polo 1])))) =
       [Finite (5628092159329567 / 35184372088832)]
   \<and> map o_total (orders_t (backend (processCheckout (Accepted ''o1'') (Accepted [])
       (shopper [line polo 1, line tee 2, line oxford 1])))) =
       [Finite (2814046079664783 / 17592186044416)]
   \<and> exact_total [line oxford 1, line tee 2, line polo 1] =
       exact_total [line polo 1, line tee 2, line oxford 1]"
  by code_simp

text \<open>
  C2, amended. For a signed-in user with a non-empty cart, a checkout whose order
  insert is accepted adds one row to \<open>orders\<close>. Its total is the running sum, from 0
  and in cart order, of the line's product price times the line's quantity, computed in
  double arithmetic (each product and each partial sum rounded to the nearest double),
  with the price held in the cart line. Its items are copies of the lines' values
  (product id, name, quantity, size, price, image). The row holds no reference to the
  product: after a later save of a product, from the storefront's admin panel or from
  the admin page, whatever the data, the orders are the same.
\<close>

theorem processCheckout_order_is_snapshot:
  assumes "cart st \<noteq> []" and "currentUser st = Some user"
  shows "orders_t (backend (processCheckout (Accepted rid) oc_clear st)) =
           orders_t (backend st) @ [placed_order rid user (cart st)]
       \<and> orders_t (backend (saveAdminProduct oc rl productData
            (processCheckout (Accepted rid) oc_clear st))) =
           orders_t (backend st) @ [placed_order rid user (cart st)]
       \<and> orders_t (backend (saveProduct oc tbody answer productId productData
            (processCheckout (Accepted rid) oc_clear st))) =
           orders_t (backend st) @ [placed_order rid user (cart st)]"
  using processCheckout_orders_t [OF assms]
  by (simp add: saveAdminProduct_orders_t saveProduct_orders_t)

theorem processCheckout_order_is_snapshot_witness:
  "cart customer \<noteq> [] \<and> currentUser customer = Some ''u1''
   \<and> orders_t (backend (processCheckout (Accepted ''o1'') (Accepted []) customer)) =
       [\<lparr>o_user_id = ''u1'',
         o_items =
           [\<lparr>oi_product_id = ''p-oxford'', oi_name = ''Classic Oxford Shirt'',
             oi_quantity = Finite 1, oi_size = ''M'', oi_price = to_double (8999 / 100),
             oi_image_url = ''oxford.jpg''\<rparr>,
            \<lparr>oi_product_id = ''p-linen'', oi_name = ''Linen Summer Shirt'',
             oi_quantity = Finite 2, oi_size = ''L'', oi_price = Finite 75,
             oi_image_url = ''linen.jpg''\<rparr>],
         o_total = to_double (23999 / 100), o_status = ''pending'', o_id = ''o1''\<rparr>]
   \<and> map o_total (orders_t (backend (saveAdminProduct (Accepted []) quiet price_edit
         (processCheckout (Accepted ''o1'') (Accepted []) customer)))) =
       [to_double (23999 / 100)]
   \<and> map p_price (products_t (backend (saveAdminProduct (Accepted []) quiet price_edit
         (processCheckout (Accepted ''o1'') (Accepted []) customer)))) =
       [to_double (9999 / 100), Finite 75]"
proof -
  have order: "orders_t (backend customer) @ [placed_order ''o1'' ''u1'' (cart customer)] =
      [\<lparr>o_user_id = ''u1'',
        o_items =
          [\<lparr>oi_product_id = ''p-oxford'', oi_name = ''Classic Oxford Shirt'',
            oi_quantity = Finite 1, oi_size = ''M'', oi_price = to_double (8999 / 100),
            oi_image_url = ''oxford.jpg''\<rparr>,
           \<lparr>oi_product_id = ''p-linen'', oi_name = ''Linen Summer Shirt'',
            oi_quantity = Finite 2, oi_size = ''L'', oi_price = Finite 75,
            oi_image_url = ''linen.jpg''\<rparr>],
        o_total = to_double (23999 / 100), o_status = ''pending'', o_id = ''o1''\<rparr>]"
    by code_simp
  have edited: "map p_price (products_t (backend (saveAdminProduct (Accepted []) quiet price_edit
        (processCheckout (Accepted ''o1'') (Accepted []) customer)))) =
      [to_double (9999 / 100), Finite 75]"
    by code_simp
  have signed_in: "cart customer \<noteq> [] \<and> currentUser customer = Some ''u1''"
    by (simp add: shop_eval)
  show ?thesis
    using processCheckout_order_is_snapshot
        [of customer "''u1''" "''o1''" "Accepted []" "Accepted []" quiet price_edit
            False "Data None" None]
      order edited signed_in
    by simp
qed

subsection \<open>C3: the cart after a checkout\<close>

text \<open>
  C3, as stated, fails: when the order insert is accepted and the backend answers the
  delete of the user's cart rows with an error, the error is not looked at, the cart in
  memory is emptied, and the rows stay.
\<close>

theorem processCheckout_stale_rows_counterexample:
  "cart customer \<noteq> [] \<and> currentUser customer = Some ''u1''
   \<and> map o_id (orders_t (backend (processCheckout (Accepted ''o1'') (Refused ''timeout'') customer))) = [''o1'']
   \<and> cart (processCheckout (Accepted ''o1'') (Refused ''timeout'') customer) = []
   \<and> map c_id (cart_rows_of ''u1'' (processCheckout (Accepted ''o1'') (Refused ''timeout'') customer)) =
       [''c1'', ''c2'']"
  by (simp add: cart_eval shop_eval cart_rows_of_def order_data.extend_def order_row.fields_def)

text \<open>
  C3, amended. For a signed-in user with a non-empty cart, after a checkout whose
  order insert is accepted the cart in memory is empty and the cart entry of local
  storage is removed; no backend cart row of the user remains when the backend also
  accepts the delete of the user's cart rows.
\<close>

theorem processCheckout_clears_cart:
  assumes "cart st \<noteq> []" and "currentUser st = Some user"
  shows "cart (processCheckout (Accepted rid) oc_clear st) = []
       \<and> localStorage_cart (processCheckout (Accepted rid) oc_clear st) = None
       \<and> (accepted oc_clear \<longrightarrow>
            cart_rows_of user (processCheckout (Accepted rid) oc_clear st) = [])"
  using assms
  by (cases oc_clear)
    (simp_all add: processCheckout_def orders_insert_def cart_items_delete_user_def send_def
      with_db_def Let_def cart_rows_of_def)

theorem processCheckout_clears_cart_witness:
  "cart customer \<noteq> [] \<and> currentUser customer = Some ''u1'' \<and> accepted (Accepted [])
   \<and> cart_rows_of ''u1'' customer \<noteq> []
   \<and> cart (processCheckout (Accepted ''o1'') (Accepted []) customer) = []
   \<and> localStorage_cart (processCheckout (Accepted ''o1'') (Accepted []) customer) = None
   \<and> cart_rows_of ''u1'' (processCheckout (Accepted ''o1'') (Accepted []) customer) = []"
  using processCheckout_clears_cart [of customer "''u1''" "''o1''" "Accepted []"]
  by (simp add: shop_eval cart_rows_of_def)

subsection \<open>C4: a backend error abandons the cart mutation\<close>

lemma addToCart_refused:
  "currentUser st \<noteq> None \<Longrightarrow>
   aborted ''Error adding to cart'' st (addToCart (Refused e) product sz q st)"
  by (auto simp: addToCart_def aborted_def cart_items_update_def cart_items_insert_def
      send_def showToast_def split: option.splits)

lemma removeFromCart_refused:
  "currentUser st \<noteq> None \<Longrightarrow> at_index (cart st) index = Some item \<Longrightarrow> truthy (l_id item) \<Longrightarrow>
   \<exists>st'. removeFromCart (Refused e) index st = Inr st' \<and> aborted ''Error removing item'' st st'"
  by (auto simp: removeFromCart_def aborted_def cart_items_delete_def truthy_def
      send_def showToast_def split: option.splits)

lemma updateCartQuantity_refused:
  "currentUser st \<noteq> None \<Longrightarrow> at_index (cart st) index = Some item \<Longrightarrow> truthy (l_id item) \<Longrightarrow>
   \<exists>st'. updateCartQuantity (Refused e) index newQuantity st = Inr st' \<and>
     aborted (if newQuantity < 1 then ''Error removing item'' else ''Error updating quantity'') st st'"
  by (auto simp: updateCartQuantity_def removeFromCart_def aborted_def cart_items_delete_def truthy_def
      cart_items_update_def send_def showToast_def split: option.splits)

lemma addToCart_local:
  "currentUser st = None \<Longrightarrow> kept_locally st (addToCart oc product sz q st)"
  by (auto simp: addToCart_def kept_locally_def showToast_def Let_def split: option.splits)

lemma removeFromCart_local:
  "currentUser st = None \<Longrightarrow> \<exists>st'. removeFromCart oc index st = Inr st' \<and> kept_locally st st'"
  by (auto simp: removeFromCart_def kept_locally_def remove_line_def Let_def)

lemma updateCartQuantity_local:
  "currentUser st = None \<Longrightarrow> at_index (cart st) index \<noteq> None \<or> newQuantity < 1 \<Longrightarrow>
   \<exists>st'. updateCartQuantity oc index newQuantity st = Inr st' \<and> kept_locally st st'"
  by (auto simp: updateCartQuantity_def removeFromCart_def kept_locally_def remove_line_def
      set_quantity_def Let_def)

text \<open>
  C4, as stated, fails in its last part: without a signed-in user
  \<open>updateCartQuantity\<close> has a failure path. With a quantity of 1 or more and an index
  that names no line of the cart, \<open>cart[index].quantity = newQuantity\<close> throws a
  TypeError.
\<close>

theorem updateCartQuantity_local_failure_counterexample:
  "currentUser visitor = None \<and> at_index (cart visitor) 3 = None \<and> \<not> Finite 2 < (1::number)
   \<and> updateCartQuantity (Accepted []) 3 (Finite 2) visitor = Inl TypeError"
  by (simp add: cart_eval shop_eval number_eval)

text \<open>
  C4, amended. When the backend answers the call of a cart mutation with an error, the
  operation is abandoned: the cart in memory (and local storage, and the tables) is
  unchanged, and the error is reported through an error notification. This holds for
  \<open>addToCart\<close> of a signed-in user, and for \<open>removeFromCart\<close> and \<open>updateCartQuantity\<close>
  on a line that has a backend row (the only lines for which they call the backend).
  Without a signed-in user no call is sent, whatever the backend would answer, no
  error is notified, and the cart is written to local storage: always for \<open>addToCart\<close>
  and \<open>removeFromCart\<close>, and for \<open>updateCartQuantity\<close> when the index names a line of
  the cart or the quantity is below 1.
\<close>

theorem backend_error_aborts_cart_mutation:
  "(currentUser st \<noteq> None \<longrightarrow>
      aborted ''Error adding to cart'' st (addToCart (Refused e) product sz quantity st))
   \<and> (currentUser st \<noteq> None \<and> at_index (cart st) index = Some item \<and> truthy (l_id item) \<longrightarrow>
      (\<exists>st'. removeFromCart (Refused e) index st = Inr st' \<and> aborted ''Error removing item'' st st')
      \<and> (\<exists>st'. updateCartQuantity (Refused e) index newQuantity st = Inr st' \<and>
            aborted (if newQuantity < 1 then ''Error removing item'' else ''Error updating quantity'') st st'))
   \<and> (currentUser st = None \<longrightarrow>
      kept_locally st (addToCart oc product sz quantity st)
      \<and> (\<exists>st'. removeFromCart oc index st = Inr st' \<and> kept_locally st st')
      \<and> (at_index (cart st) index \<noteq> None \<or> newQuantity < 1 \<longrightarrow>
           (\<exists>st'. updateCartQuantity oc index newQuantity st = Inr st' \<and> kept_locally st st')))"
  using addToCart_refused removeFromCart_refused updateCartQuantity_refused
    addToCart_local removeFromCart_local updateCartQuantity_local
  by simp

theorem backend_error_aborts_cart_mutation_witness:
  "(currentUser customer \<noteq> None \<and> at_index (cart customer) 0 = Some (hd customer_cart)
      \<and> truthy (l_id (hd customer_cart))
      \<and> aborted ''Error adding to cart'' customer (addToCart (Refused ''timeout'') linen ''S'' (Finite 1) customer)
      \<and> (\<exists>st'. removeFromCart (Refused ''timeout'') 0 customer = Inr st'
            \<and> aborted ''Error removing item'' customer st')
      \<and> (\<exists>st'. updateCartQuantity (Refused ''timeout'') 0 (Finite 2) customer = Inr st'
            \<and> aborted ''Error updating quantity'' customer st'))
   \<and> (currentUser visitor = None \<and> at_index (cart visitor) 0 \<noteq> None
      \<and> kept_locally visitor (addToCart (Refused ''timeout'') linen ''S'' (Finite 1) visitor)
      \<and> (\<exists>st'. removeFromCart (Refused ''timeout'') 0 visitor = Inr st' \<and> kept_locally visitor st')
      \<and> (\<exists>st'. updateCartQuantity (Refused ''timeout'') 0 (Finite 2) visitor = Inr st' \<and> kept_locally visitor st'))"
  using backend_error_aborts_cart_mutation
      [of customer "''timeout''" linen "''S''" "Finite 1" 0 "hd customer_cart" "Finite 2"]
    backend_error_aborts_cart_mutation
      [of visitor "''timeout''" linen "''S''" "Finite 1" 0 "hd visitor_cart" "Finite 2" "Refused ''timeout''"]
  by (simp add: customer_def customer_cart_def visitor_def visitor_cart_def guest_def
      at_index_def truthy_def number_eval)

subsection \<open>C5: a quantity below one removes the line\<close>

text \<open>
  C5. For every cart line index, \<open>updateCartQuantity\<close> with a quantity strictly below 1
  (quantity 0 in particular) gives exactly the result of \<open>removeFromCart\<close> on that index:
  the same in-memory cart, the same local storage, the same backend rows, the same
  notifications, and the same exception when the index names no line.
\<close>

theorem updateCartQuantity_below_one_is_remove:
  "newQuantity < 1 \<Longrightarrow> updateCartQuantity oc index newQuantity st = removeFromCart oc index st"
  by (simp add: updateCartQuantity_def)

theorem updateCartQuantity_below_one_is_remove_witness:
  "(0::number) < 1 \<and>
   updateCartQuantity (Accepted []) 0 0 customer = removeFromCart (Accepted []) 0 customer \<and>
   updateCartQuantity (Accepted []) 0 0 visitor = removeFromCart (Accepted []) 0 visitor"
  using updateCartQuantity_below_one_is_remove [of 0 "Accepted []" 0 customer]
    updateCartQuantity_below_one_is_remove [of 0 "Accepted []" 0 visitor]
  by (simp add: number_eval)

subsection \<open>C6: checkout of an empty cart or without a user\<close>

text \<open>
  C6. \<open>processCheckout\<close> rejects a call with an empty cart and a call without a
  signed-in user: it sends nothing to the backend, so no order is inserted and no cart
  row is deleted, the cart in memory and in local storage is unchanged, there is no
  redirect, and an error is notified.
\<close>

theorem processCheckout_rejects:
  assumes "cart st = [] \<or> currentUser st = None"
  shows "backend (processCheckout oc_order oc_clear st) = backend st
       \<and> requests (processCheckout oc_order oc_clear st) = requests st
       \<and> cart (processCheckout oc_order oc_clear st) = cart st
       \<and> localStorage_cart (processCheckout oc_order oc_clear st) = localStorage_cart st
       \<and> href (processCheckout oc_order oc_clear st) = href st
       \<and> (\<exists>message. toasts (processCheckout oc_order oc_clear st) = toasts st @ [(message, ''error'')])"
  using assms by (auto simp: processCheckout_def showToast_def)

theorem processCheckout_rejects_witness:
  "(cart visitor \<noteq> [] \<and> currentUser visitor = None
     \<and> backend (processCheckout (Accepted ''o1'') (Accepted []) visitor) = backend visitor
     \<and> requests (processCheckout (Accepted ''o1'') (Accepted []) visitor) = []
     \<and> cart (processCheckout (Accepted ''o1'') (Accepted []) visitor) = visitor_cart)
   \<and> (cart (customer\<lparr>cart := []\<rparr>) = [] \<and> currentUser (customer\<lparr>cart := []\<rparr>) = Some ''u1''
     \<and> backend (processCheckout (Accepted ''o1'') (Accepted []) (customer\<lparr>cart := []\<rparr>)) = backend customer
     \<and> requests (processCheckout (Accepted ''o1'') (Accepted []) (customer\<lparr>cart := []\<rparr>)) = [])"
  using processCheckout_rejects [of visitor "Accepted ''o1''" "Accepted []"]
    processCheckout_rejects [of "customer\<lparr>cart := []\<rparr>" "Accepted ''o1''" "Accepted []"]
  by (simp add: visitor_def visitor_cart_def customer_def guest_def)

subsection \<open>C7: the size filter of the catalog\<close>

text \<open>
  C7. With a \<open>size\<close> filter (a non-empty string), \<open>loadProducts\<close> shows exactly the
  products of the fetched result that have the size, in the fetched order: the
  intersection of the fetched set, which the backend filtered by category and search
  and sorted, with the products having the size. The size plays no part in the query:
  the call sent is the one sent without the size filter, which shows the whole fetched
  result.
\<close>

theorem loadProducts_size_filter:
  assumes "fl_size filters = Some sz" and "sz \<noteq> []"
  shows "products (loadProducts (Data data) filters st) = filter (has_size sz) (or_empty data)
       \<and> set (products (loadProducts (Data data) filters st)) =
           set (or_empty data) \<inter> {p. has_size sz p}
       \<and> products (loadProducts (Data data) (filters\<lparr>fl_size := None\<rparr>) st) = or_empty data
       \<and> requests (loadProducts (Data data) filters st) =
           requests (loadProducts (Data data) (filters\<lparr>fl_size := None\<rparr>) st)"
  using assms by (auto simp: loadProducts_def send_def build_query_def Let_def)

theorem loadProducts_size_filter_witness:
  "fl_size shirts_in_xxl = Some ''XXL'' \<and> ''XXL'' \<noteq> []
   \<and> products (loadProducts (Data (Some [oxford, linen])) shirts_in_xxl guest) = [linen]
   \<and> requests (loadProducts (Data (Some [oxford, linen])) shirts_in_xxl guest) =
       [Select_products \<lparr>q_category = Some ''casual'', q_name_ilike = Some ''%shirt%'',
          q_order = Price_ascending\<rparr>]"
  using loadProducts_size_filter [of shirts_in_xxl "''XXL''" "Some [oxford, linen]" guest]
  by (simp add: shirts_in_xxl_def admin_eval cart_eval shop_eval)

subsection \<open>C8: the revenue change\<close>

lemma parseFloat_toFixed_finite:
  assumes "\<bar>a\<bar> < 10 ^ 21"
  shows "\<exists>n::int. parseFloat (toFixed 1 (Finite a)) = to_double (of_int n / 10)
           \<and> \<bar>of_int n / 10 - a\<bar> \<le> 1 / 20"
proof -
  obtain n :: int where n: "round_decimal 1 a = of_int n / 10"
    using round_decimal_grid [of 1 a] by auto
  have "\<bar>round_decimal 1 a - a\<bar> \<le> 1 / 20"
    using round_decimal_near [of 1 a] by simp
  then have near: "\<bar>of_int n / 10 - a\<bar> \<le> 1 / 20"
    by (simp only: n)
  have "parseFloat (toFixed 1 (Finite a)) = to_double (round_decimal 1 a)"
    using assms by (simp add: toFixed_def parseFloat_def)
  then have "parseFloat (toFixed 1 (Finite a)) = to_double (of_int n / 10)"
    by (simp only: n)
  with near show ?thesis by blast
qed

text \<open>
  C8, as stated, fails: the change is rounded to one decimal place by \<open>toFixed(1)\<close>.
  With 400.00 this month and 300.00 last month the code returns 33.3, while
  (400 - 300) / 300 * 100 is 33.33333333333333 in the code's arithmetic (and 100/3
  exactly).
\<close>

theorem calculateRevenue_rounds_counterexample:
  "r_change (calculateRevenue True (Data (Some [Finite 400])) (Data (Some [Finite 300]))) =
     to_double (333 / 10)
   \<and> percent_change (Finite 400) (Finite 300) = Finite (2345624805922133 / 70368744177664)
   \<and> r_change (calculateRevenue True (Data (Some [Finite 400])) (Data (Some [Finite 300]))) \<noteq>
       percent_change (Finite 400) (Finite 300)"
  by code_simp

text \<open>
  C8, amended. \<open>calculateRevenue\<close> returns the sums of the paid-order totals of this
  month and of last month. When the sum of last month is above 0, the percent change it
  returns is (current - previous) / previous * 100, computed in double arithmetic, then
  rounded to one decimal place by \<open>toFixed(1)\<close> and read back by \<open>parseFloat\<close>: for a
  finite value below \<open>10^21\<close> in size, the double nearest to a multiple of 0.1 that is at
  most 0.05 away from the computed value. Otherwise, and so when the sum of last month
  is 0, the change is 0. With 150.00 this month and 100.00 last month the change is
  50.0.
\<close>

theorem calculateRevenue_change:
  "(let r = calculateRevenue client currentMonth lastMonth;
        ratio = percent_change (r_total r) (r_lastMonth r)
    in (r_lastMonth r > 0 \<longrightarrow>
          r_change r = parseFloat (toFixed 1 ratio)
          \<and> (\<forall>a. ratio = Finite a \<and> \<bar>a\<bar> < 10 ^ 21 \<longrightarrow>
                (\<exists>n::int. r_change r = to_double (of_int n / 10)
                   \<and> \<bar>of_int n / 10 - a\<bar> \<le> 1 / 20)))
       \<and> (\<not> r_lastMonth r > 0 \<longrightarrow> r_change r = 0))
   \<and> r_total (calculateRevenue True (Data current) (Data previous)) = sum_totals current
   \<and> r_lastMonth (calculateRevenue True (Data current) (Data previous)) = sum_totals previous
   \<and> r_change (calculateRevenue True (Data (Some [Finite 150])) (Data (Some [Finite 100]))) =
       Finite 50"
proof -
  have example:
    "r_change (calculateRevenue True (Data (Some [Finite 150])) (Data (Some [Finite 100]))) =
       Finite 50"
    by code_simp
  have zero: "\<not> (0::number) < 0" "parseFloat (Inr 0) = 0"
    by (simp_all add: zero_number_def parseFloat_def)
  then have failed: "\<not> r_lastMonth no_revenue > 0" "r_change no_revenue = 0"
    by (simp_all add: no_revenue_def)
  have sums: "r_total (calculateRevenue True (Data current) (Data previous)) = sum_totals current"
    "r_lastMonth (calculateRevenue True (Data current) (Data previous)) = sum_totals previous"
    by (simp_all add: calculateRevenue_def Let_def)
  have "(r_lastMonth r > 0 \<longrightarrow>
          r_change r = parseFloat (toFixed 1 (percent_change (r_total r) (r_lastMonth r))))
      \<and> (\<not> r_lastMonth r > 0 \<longrightarrow> r_change r = 0)"
    if "r = calculateRevenue client currentMonth lastMonth" for r
    using that failed zero
    by (auto simp: calculateRevenue_def Let_def percent_change_def split: reply.splits)
  then show ?thesis
    using example sums parseFloat_toFixed_finite
    by (simp add: Let_def)
qed

theorem calculateRevenue_change_witness:
  "r_lastMonth (calculateRevenue True (Data (Some [Finite 103])) (Data (Some [Finite 80]))) > 0
   \<and> r_change (calculateRevenue True (Data (Some [Finite 103])) (Data (Some [Finite 80]))) =
       parseFloat (toFixed 1 (percent_change (Finite 103) (Finite 80)))
   \<and> percent_change (Finite 103) (Finite 80) = Finite (8092405580431359 / 281474976710656)
   \<and> r_change (calculateRevenue True (Data (Some [Finite 103])) (Data (Some [Finite 80]))) =
       to_double (287 / 10)
   \<and> \<not> r_lastMonth (calculateRevenue True (Data (Some [Finite 103])) (Data (Some []))) > 0
   \<and> r_change (calculateRevenue True (Data (Some [Finite 103])) (Data (Some []))) = 0"
proof -
  have total: "r_total (calculateRevenue True (Data (Some [Finite 103])) (Data (Some [Finite 80]))) =
      Finite 103"
    by code_simp
  have last: "r_lastMonth (calculateRevenue True (Data (Some [Finite 103])) (Data (Some [Finite 80]))) =
      Finite 80"
    by code_simp
  have none: "r_lastMonth (calculateRevenue True (Data (Some [Finite 103])) (Data (Some []))) = Finite 0"
    by code_simp
  have ratio: "percent_change (Finite 103) (Finite 80) =
      Finite (8092405580431359 / 281474976710656)"
    by code_simp
  have rounded: "parseFloat (toFixed 1 (Finite (8092405580431359 / 281474976710656))) =
      to_double (287 / 10)"
    by code_simp
  show ?thesis
    using calculateRevenue_change [of True "Data (Some [Finite 103])" "Data (Some [Finite 80])"]
      calculateRevenue_change [of True "Data (Some [Finite 103])" "Data (Some [])"]
      total last none ratio rounded
    by (simp add: Let_def zero_number_def)
qed

subsection \<open>C9: saving a product updates or inserts\<close>

lemma issued_refl [simp]: "issued st st = []"
  by (simp add: issued_def)

lemma loadProducts_requests:
  "requests (loadProducts answer fl st) = requests st @ [Select_products (build_query fl)]"
  by (cases answer) (simp_all add: loadProducts_def send_def showToast_def Let_def)

lemma loadAdminProducts_requests:
  "\<exists>rs. requests (loadAdminProducts tbody answer st) = requests st @ rs \<and> filter is_write rs = []"
  by (cases answer) (auto simp: loadAdminProducts_def send_def Let_def)

lemma loadProducts_admin_requests:
  "\<exists>rs. requests (loadProducts_admin tbody answer st) = requests st @ rs \<and> filter is_write rs = []"
  by (cases answer) (auto simp: loadProducts_admin_def send_def Let_def)

lemma showToast_requests [simp]: "requests (showToast m t st) = requests st"
  by (simp add: showToast_def)

lemma products_update_requests [simp]:
  "requests (snd (products_update oc rid d st)) = requests st @ [Update_product rid d]"
  by (cases oc) (simp_all add: products_update_def send_def with_db_def Let_def)

lemma products_insert_requests [simp]:
  "requests (snd (products_insert oc d st)) = requests st @ [Insert_product d]"
  by (cases oc) (simp_all add: products_insert_def send_def with_db_def Let_def)

lemma writes_after:
  assumes "requests st1 = requests st @ [r]" and "is_write r"
    and "\<exists>rs. requests st2 = requests st1 @ rs \<and> filter is_write rs = []"
  shows "writes st st2 = [r]"
  using assms by (auto simp: writes_def issued_def)

lemma reloads_requests:
  "\<exists>rs. requests (loadAdminProducts tbody answer' (loadProducts answer fl (showToast m t st1))) =
     requests st1 @ rs \<and> filter is_write rs = []"
  using loadAdminProducts_requests [of tbody answer' "loadProducts answer fl (showToast m t st1)"]
  by (auto simp: loadProducts_requests)

lemma reload_admin_requests:
  "\<exists>rs. requests (loadProducts_admin tbody answer (showToast m t st1)) =
     requests st1 @ rs \<and> filter is_write rs = []"
  using loadProducts_admin_requests [of tbody answer "showToast m t st1"]
  by auto

lemma no_requests: "\<exists>rs. requests (showToast m t st1) = requests st1 @ rs \<and> filter is_write rs = []"
  by simp

lemma saveAdminProduct_update:
  assumes "d_id d = Some rid" and "rid \<noteq> []"
  shows "writes st (saveAdminProduct oc rl d st) = [Update_product rid d]"
proof -
  obtain err st1 where call: "products_update oc rid d st = (err, st1)"
    by (cases "products_update oc rid d st")
  then have st1: "requests st1 = requests st @ [Update_product rid d]"
    using products_update_requests [of oc rid d st] by simp
  show ?thesis
    using assms call writes_after [OF st1 _ reloads_requests] writes_after [OF st1 _ no_requests]
    by (cases err) (simp_all add: saveAdminProduct_def)
qed

lemma saveAdminProduct_insert:
  assumes "d_id d = None \<or> d_id d = Some []"
  shows "writes st (saveAdminProduct oc rl d st) = [Insert_product d]"
proof -
  obtain err st1 where call: "products_insert oc d st = (err, st1)"
    by (cases "products_insert oc d st")
  then have st1: "requests st1 = requests st @ [Insert_product d]"
    using products_insert_requests [of oc d st] by simp
  show ?thesis
    using assms call writes_after [OF st1 _ reloads_requests] writes_after [OF st1 _ no_requests]
    by (cases err) (auto simp: saveAdminProduct_def)
qed

lemma saveProduct_update:
  assumes "productId = Some rid" and "rid \<noteq> []"
  shows "writes st (saveProduct oc tbody answer productId d st) = [Update_product rid d]"
proof -
  obtain err st1 where call: "products_update oc rid d st = (err, st1)"
    by (cases "products_update oc rid d st")
  then have st1: "requests st1 = requests st @ [Update_product rid d]"
    using products_update_requests [of oc rid d st] by simp
  show ?thesis
    using assms call writes_after [OF st1 _ reload_admin_requests] writes_after [OF st1 _ no_requests]
    by (cases err) (simp_all add: saveProduct_def)
qed

lemma saveProduct_insert:
  assumes "productId = None \<or> productId = Some []"
  shows "writes st (saveProduct oc tbody answer productId d st) = [Insert_product d]"
proof -
  obtain err st1 where call: "products_insert oc d st = (err, st1)"
    by (cases "products_insert oc d st")
  then have st1: "requests st1 = requests st @ [Insert_product d]"
    using products_insert_requests [of oc d st] by simp
  show ?thesis
    using assms call writes_after [OF st1 _ reload_admin_requests] writes_after [OF st1 _ no_requests]
    by (cases err) (auto simp: saveProduct_def)
qed

text \<open>
  C9. A save of a product sends exactly one writing call to the backend: an update of
  the row with the identifier when the payload carries one, an insert when it does not.
  An identifier is carried when it is there and is not the empty string (the code tests
  its truthiness). This holds for \<open>saveAdminProduct\<close>, which reads the identifier from
  the payload, and for \<open>saveProduct\<close> of the admin page, which reads it from the hidden
  form field, whatever the backend answers.
\<close>

theorem save_updates_or_inserts:
  "(truthy (d_id productData) \<longrightarrow>
      (\<exists>rid. d_id productData = Some rid \<and>
         writes st (saveAdminProduct oc rl productData st) = [Update_product rid productData]))
   \<and> (\<not> truthy (d_id productData) \<longrightarrow>
      writes st (saveAdminProduct oc rl productData st) = [Insert_product productData])
   \<and> (truthy productId \<longrightarrow>
      (\<exists>rid. productId = Some rid \<and>
         writes st (saveProduct oc tbody answer productId productData st) =
           [Update_product rid productData]))
   \<and> (\<not> truthy productId \<longrightarrow>
      writes st (saveProduct oc tbody answer productId productData st) =
        [Insert_product productData])"
  using saveAdminProduct_update [of productData _ st oc rl]
    saveAdminProduct_insert [of productData st oc rl]
    saveProduct_update [of productId _ st oc tbody answer productData]
    saveProduct_insert [of productId st oc tbody answer productData]
  by (auto simp: truthy_def split: option.splits)

theorem save_updates_or_inserts_witness:
  "(truthy (d_id price_edit)
     \<and> writes guest (saveAdminProduct (Accepted []) quiet price_edit guest) =
         [Update_product ''p-oxford'' price_edit])
   \<and> (\<not> truthy (d_id no_data)
     \<and> writes guest (saveAdminProduct (Accepted ''p-new'') quiet no_data guest) =
         [Insert_product no_data])
   \<and> (truthy (Some ''p-oxford'')
     \<and> writes guest (saveProduct (Refused ''timeout'') True (Data None) (Some ''p-oxford'') no_data guest) =
         [Update_product ''p-oxford'' no_data])
   \<and> (\<not> truthy (Some [])
     \<and> writes guest (saveProduct (Accepted ''p-new'') True (Data None) (Some []) no_data guest) =
         [Insert_product no_data])"
  using save_updates_or_inserts [of price_edit guest "Accepted []" quiet "Some ''p-oxford''"
      True "Data None"]
    save_updates_or_inserts [of no_data guest "Accepted ''p-new''" quiet "Some []"
      True "Data None"]
    save_updates_or_inserts [of no_data guest "Refused ''timeout''" quiet "Some ''p-oxford''"
      True "Data None"]
  by (simp add: truthy_def price_edit_def no_data_def)

subsection \<open>C10: the image picker\<close>

text \<open>
  C10. A file chosen in the image picker becomes the pending upload
  (\<open>selectedImageFile\<close>) only if its type starts with \<open>image/\<close> and its size is at most
  5 * 1024 * 1024 bytes. A file that fails either check is rejected with an error
  notification: the pending upload stays what it was, and nothing is sent.
\<close>

theorem image_picker_accepts_only_small_images:
  "(acceptable file \<longrightarrow>
      initializeImageUpload_change (Some file) st = st\<lparr>selectedImageFile := Some file\<rparr>)
   \<and> (\<not> acceptable file \<longrightarrow>
      selectedImageFile (initializeImageUpload_change (Some file) st) = selectedImageFile st
      \<and> requests (initializeImageUpload_change (Some file) st) = requests st
      \<and> (\<exists>message. toasts (initializeImageUpload_change (Some file) st) =
            toasts st @ [(message, ''error'')]))"
  by (auto simp: initializeImageUpload_change_def acceptable_def showToast_def)

theorem image_picker_accepts_only_small_images_witness:
  "acceptable photo \<and> \<not> acceptable (photo\<lparr>f_size := 5242881\<rparr>)
   \<and> \<not> acceptable (photo\<lparr>f_type := ''application/pdf''\<rparr>)
   \<and> selectedImageFile (initializeImageUpload_change (Some photo) guest) = Some photo
   \<and> selectedImageFile (initializeImageUpload_change (Some (photo\<lparr>f_size := 5242881\<rparr>)) guest) = None
   \<and> toasts (initializeImageUpload_change (Some (photo\<lparr>f_size := 5242881\<rparr>)) guest) =
       [(''Image must be less than 5MB'', ''error'')]
   \<and> toasts (initializeImageUpload_change (Some (photo\<lparr>f_type := ''application/pdf''\<rparr>)) guest) =
       [(''Please select an image file'', ''error'')]"
  using image_picker_accepts_only_small_images [of photo guest]
    image_picker_accepts_only_small_images [of "photo\<lparr>f_size := 5242881\<rparr>" guest]
    image_picker_accepts_only_small_images [of "photo\<lparr>f_type := ''application/pdf''\<rparr>" guest]
  by (simp add: acceptable_def photo_def startsWith_def initializeImageUpload_change_def
      showToast_def guest_def)

end
